theory Spec2Isabelle
  imports
    Complex_Main
    "HOL-Library.Sublist"
    "HOL-Library.Multiset"
    "HOL-Library.Char_ord"
    "HOL-Library.List_Lexorder"
    "HOL-Library.Product_Lexorder"
begin

section \<open>The data model of \<open>create_datasets.py\<close>\<close>

text \<open>
  The script is a sequence of notebook cells. Each cell builds a pandas table in the
  variable \<open>df\<close> and writes it into the HDF store \<open>assets.h5\<close>. A table is modelled
  as the list of its rows in row order, each row being its index label followed by its
  cells. A date is the number of days since 1970-01-01.

  A float64 cell is a value of type \<open>'f option\<close>: \<open>None\<close> is NaN, and \<open>'f\<close> stands
  for the float64 values that are not NaN. What pandas and numpy compute on float64
  values (the conversion of a string, a product, a mean, the statistics of
  \<open>describe\<close>) is rounded arithmetic of these libraries; the cells take each such
  operation as a parameter, so that what is proved holds of the operation as it is. The
  last subsection gives the instances used to evaluate the cells on concrete tables.
\<close>

datatype error = ValueError | KeyError

type_synonym date = int

type_synonym 'c prices = "((date \<times> string) \<times> 'c) list"

type_synonym ('m, 'o) stocks = "(string \<times> 'm \<times> 'o) list"

type_synonym 'f assets = "string list \<times> (date \<times> 'f option list) list"

datatype ('c, 'o, 'f) frame =
    Prices "'c prices"
  | Stocks "('f option, 'o) stocks"
  | Assets "'f assets"

subsection \<open>The keyed store\<close>

text \<open>
  \<open>pd.HDFStore.put(key, value)\<close> with its defaults (\<open>format='fixed'\<close>,
  \<open>append=False\<close>) removes the node stored under the key, if there is one, and then
  creates a new node holding the value. The store is the list of its nodes.
\<close>

type_synonym 'p hdfstore = "(string \<times> 'p) list"

definition put :: "string \<Rightarrow> 'p \<Rightarrow> 'p hdfstore \<Rightarrow> 'p hdfstore" where
  "put key v store = filter (\<lambda>(k, _). k \<noteq> key) store @ [(key, v)]"

definition store_get :: "'p hdfstore \<Rightarrow> string \<Rightarrow> 'p option" where
  "store_get store key = map_of store key"

subsection \<open>Quandl Wiki prices\<close>

text \<open>
  \<^verbatim>\<open>df = (pd.read_csv('wiki_prices.csv', parse_dates=['date'],
                   index_col=['date', 'ticker'], infer_datetime_format=True)
          .sort_index())
  with pd.HDFStore(DATA_STORE) as store:
      store.put('quandl/wiki/prices', df)\<close>

  The argument \<open>wiki_prices_csv\<close> is the table as \<open>read_csv\<close> returns it, indexed by
  (date, ticker) in file order. \<open>sort_index\<close> orders the rows by their index label,
  ascending; pairs are compared lexicographically, tickers as strings by code point.
\<close>

definition sort_index :: "('i::linorder \<times> 'c) list \<Rightarrow> ('i \<times> 'c) list" where
  "sort_index df = sort_key fst df"

definition wiki_prices_cell ::
  "'c prices \<Rightarrow> ('c, 'o, 'f) frame hdfstore \<Rightarrow> ('c, 'o, 'f) frame hdfstore" where
  "wiki_prices_cell wiki_prices_csv store =
     (let df = sort_index wiki_prices_csv
      in put ''quandl/wiki/prices'' (Prices df) store)"

subsection \<open>Metadata on US-traded companies: duplicates\<close>

text \<open>
  \<^verbatim>\<open>df = df[~df.index.duplicated()]\<close>

  \<open>Index.duplicated()\<close> (\<open>keep='first'\<close>) marks a label that has occurred at an
  earlier position; the labels seen so far are carried along. \<open>df[mask]\<close> keeps the
  rows whose mask entry is true.
\<close>

fun duplicated_from :: "'k list \<Rightarrow> 'k list \<Rightarrow> bool list" where
  "duplicated_from seen [] = []"
| "duplicated_from seen (k # ks) = (k \<in> set seen) # duplicated_from (k # seen) ks"

definition duplicated :: "'k list \<Rightarrow> bool list" where
  "duplicated ks = duplicated_from [] ks"

definition getitem_bool :: "bool list \<Rightarrow> 'r list \<Rightarrow> 'r list" where
  "getitem_bool msk rows = map snd (filter fst (zip msk rows))"

definition drop_duplicated :: "('k \<times> 'r) list \<Rightarrow> ('k \<times> 'r) list" where
  "drop_duplicated df = getitem_bool (map Not (duplicated (map fst df))) df"

subsection \<open>Metadata on US-traded companies: market capitalisation\<close>

text \<open>
  Here \<open>df\<close> is indexed by symbol and has a column \<open>marketcap\<close> of strings
  (object dtype, a missing entry is NaN); the remaining columns of a row are kept as one
  value of type \<open>'o\<close>.

  \<^verbatim>\<open>mcap = df[['marketcap']].dropna()
  mcap['suffix'] = mcap.marketcap.str[-1]\<close>

  \<open>.str[-1]\<close> is the last character as a string of length one, and NaN for the empty
  string. The table \<open>mcap\<close> is the list of (symbol, marketcap, suffix).
\<close>

definition getitem_marketcap :: "('k \<times> 'm \<times> 'o) list \<Rightarrow> ('k \<times> 'm) list" where
  "getitem_marketcap df = map (\<lambda>(k, m, other). (k, m)) df"

definition dropna :: "('k \<times> 'a option) list \<Rightarrow> ('k \<times> 'a) list" where
  "dropna col = concat (map (\<lambda>(k, v). case v of None \<Rightarrow> [] | Some a \<Rightarrow> [(k, a)]) col)"

definition str_get_last :: "string \<Rightarrow> string option" where
  "str_get_last s = (if s = [] then None else Some [last s])"

definition add_suffix :: "('k \<times> string) list \<Rightarrow> ('k \<times> string \<times> string option) list" where
  "add_suffix mcap = map (\<lambda>(k, m). (k, m, str_get_last m)) mcap"

text \<open>
  \<^verbatim>\<open>mcap = mcap[mcap.suffix.str.endswith(('B', 'M'))]\<close>

  \<open>.str.endswith\<close> with a tuple is true when the string ends with one of the patterns,
  and NaN on NaN. Indexing with a mask that contains NaN raises \<open>ValueError\<close>.
\<close>

definition str_endswith :: "string list \<Rightarrow> string option \<Rightarrow> bool option" where
  "str_endswith pats x = map_option (\<lambda>s. list_ex (\<lambda>p. suffix p s) pats) x"

definition getitem_mask :: "bool option list \<Rightarrow> 'r list \<Rightarrow> error + 'r list" where
  "getitem_mask msk rows =
     (if None \<in> set msk then Inl ValueError
      else Inr (getitem_bool (map (\<lambda>b. b = Some True) msk) rows))"

definition keep_units ::
  "('k \<times> string \<times> string option) list \<Rightarrow> error + ('k \<times> string \<times> string option) list" where
  "keep_units mcap =
     getitem_mask (map (\<lambda>(k, m, sfx). str_endswith [''B'', ''M''] sfx) mcap) mcap"

text \<open>
  \<^verbatim>\<open>mcap.marketcap = pd.to_numeric(mcap.marketcap.str[1:-1])\<close>

  \<open>.str[1:-1]\<close> drops the first and the last character. \<open>pd.to_numeric\<close>
  (\<open>errors='raise'\<close>, the default) converts the strings one by one and raises at the
  first string it cannot convert. Its conversion of one string, \<open>num\<close>, belongs to pandas
  and is a parameter: it returns a number, NaN, or an error.
\<close>

definition str_slice_1_m1 :: "string \<Rightarrow> string" where
  "str_slice_1_m1 s = butlast (tl s)"

fun to_numeric :: "(string \<Rightarrow> error + 'f option) \<Rightarrow> string list \<Rightarrow> error + 'f option list" where
  "to_numeric num [] = Inr []"
| "to_numeric num (s # ss) =
     (case num s of
        Inl e \<Rightarrow> Inl e
      | Inr v \<Rightarrow> (case to_numeric num ss of Inl e \<Rightarrow> Inl e | Inr vs \<Rightarrow> Inr (v # vs)))"

definition set_marketcap ::
  "('k \<times> string \<times> string option) list \<Rightarrow> 'f option list \<Rightarrow> ('k \<times> 'f option \<times> string option) list" where
  "set_marketcap mcap vals = map (\<lambda>((k, m, sfx), v). (k, v, sfx)) (zip mcap vals)"

text \<open>
  \<^verbatim>\<open>mcaps = {'M': 1e6, 'B': 1e9}
  for symbol, factor in mcaps.items():
      mcap.loc[mcap.suffix == symbol, 'marketcap'] *= factor\<close>

  The factors are the float64 literals \<open>1e6\<close> and \<open>1e9\<close>, written as the numbers
  they denote. The product is a float64 product: \<open>fmul x c\<close> is the float64 nearest
  to the product of the float64 \<open>x\<close> and the literal \<open>c\<close>, as the hardware rounds
  it. A factor is finite and not zero, so the product of a value that is not NaN is not
  NaN, and NaN stays NaN.
\<close>

definition mcaps :: "(string \<times> rat) list" where
  "mcaps = [(''M'', 10 ^ 6), (''B'', 10 ^ 9)]"

definition mul_where ::
  "('f \<Rightarrow> rat \<Rightarrow> 'f) \<Rightarrow> string \<Rightarrow> rat \<Rightarrow>
     ('k \<times> 'f option \<times> string option) list \<Rightarrow> ('k \<times> 'f option \<times> string option) list" where
  "mul_where fmul symbol factor mcap =
     map (\<lambda>(k, v, sfx).
        (k, (if sfx = Some symbol then map_option (\<lambda>x. fmul x factor) v else v), sfx)) mcap"

definition apply_mcaps ::
  "('f \<Rightarrow> rat \<Rightarrow> 'f) \<Rightarrow>
     ('k \<times> 'f option \<times> string option) list \<Rightarrow> ('k \<times> 'f option \<times> string option) list" where
  "apply_mcaps fmul mcap = fold (\<lambda>(symbol, factor). mul_where fmul symbol factor) mcaps mcap"

definition convert_marketcap ::
  "(string \<Rightarrow> error + 'f option) \<Rightarrow> ('f \<Rightarrow> rat \<Rightarrow> 'f) \<Rightarrow> ('k \<times> string option \<times> 'o) list \<Rightarrow>
     error + ('k \<times> 'f option \<times> string option) list" where
  "convert_marketcap num fmul df =
     (let mcap = dropna (getitem_marketcap df);
          mcap = add_suffix mcap
      in case keep_units mcap of
           Inl e \<Rightarrow> Inl e
         | Inr mcap \<Rightarrow>
             (case to_numeric num (map (\<lambda>(k, m, sfx). str_slice_1_m1 m) mcap) of
                Inl e \<Rightarrow> Inl e
              | Inr vals \<Rightarrow> Inr (apply_mcaps fmul (set_marketcap mcap vals))))"

text \<open>
  \<^verbatim>\<open>df['marketcap'] = mcap.marketcap\<close>

  Assigning a Series to a column aligns it with the index of the table: when the two
  indexes are equal the values are taken as they are; otherwise each row takes the value
  under its own label, NaN when the Series has none, and a Series with a repeated label
  raises \<open>ValueError\<close>.
\<close>

definition assign_marketcap ::
  "('k \<times> 'm \<times> 'o) list \<Rightarrow> ('k \<times> 'f option \<times> string option) list \<Rightarrow>
     error + ('k \<times> 'f option \<times> 'o) list" where
  "assign_marketcap df mcap =
     (if map fst mcap = map fst df
      then Inr (map (\<lambda>((k, m, other), (k', v, sfx)). (k, v, other)) (zip df mcap))
      else if distinct (map fst mcap)
      then Inr (map (\<lambda>(k, m, other).
                  (k, (case map_of mcap k of None \<Rightarrow> None | Some (v, sfx) \<Rightarrow> v), other)) df)
      else Inl ValueError)"

text \<open>
  \<^verbatim>\<open>df.marketcap.describe(percentiles=np.arange(.1, 1, .1).round(1))
    .apply(lambda x: f'{int(x):,d}')\<close>

  \<open>describe\<close> computes the count, the mean, the standard deviation, the minimum, the
  percentiles and the maximum of the entries that are not NaN, and \<open>int(x)\<close> raises
  \<open>ValueError\<close> on NaN. With no entry the mean is NaN, and with one entry the standard
  deviation is NaN. With two entries or more the statistics are float64 computations on
  the entries: \<open>fmt\<close> tells whether formatting them raises. The value of the
  expression is not used.
\<close>

definition describe_apply_int :: "('f list \<Rightarrow> error + unit) \<Rightarrow> 'f option list \<Rightarrow> error + unit" where
  "describe_apply_int fmt col =
     (let xs = concat (map (\<lambda>v. case v of None \<Rightarrow> [] | Some x \<Rightarrow> [x]) col)
      in if length xs < 2 then Inl ValueError else fmt xs)"

text \<open>
  The cells In[12] to In[16].

  \<^verbatim>\<open>df = pd.concat([pd.read_csv(url.format(ex)) for ex in exchanges]).dropna(how='all', axis=1)
  df = df.rename(columns=str.lower).set_index('symbol').drop('summary quote', axis=1)\<close>

  \<open>listing\<close> is the concatenation of the three exchange files with the symbol of
  each row first. \<open>dropna(how='all', axis=1)\<close> removes a column that has no entry
  in any row; when this is the column \<open>marketcap\<close>, \<open>df[['marketcap']]\<close> raises
  \<open>KeyError\<close>. The columns kept in \<open>'o\<close>, among them the symbol, are taken to have
  an entry. The result is the value of \<open>df\<close> after In[16].
\<close>

definition us_listing_cells ::
  "(string \<Rightarrow> error + 'f option) \<Rightarrow> ('f \<Rightarrow> rat \<Rightarrow> 'f) \<Rightarrow> ('f list \<Rightarrow> error + unit) \<Rightarrow>
     ('k \<times> string option \<times> 'o) list \<Rightarrow> error + ('k \<times> 'f option \<times> 'o) list" where
  "us_listing_cells num fmul fmt listing =
     (if list_all (\<lambda>(k, m, other). m = None) listing then Inl KeyError
      else let df = drop_duplicated listing
           in case convert_marketcap num fmul df of
                Inl e \<Rightarrow> Inl e
              | Inr mcap \<Rightarrow>
                  (case assign_marketcap df mcap of
                     Inl e \<Rightarrow> Inl e
                   | Inr df \<Rightarrow>
                       (case describe_apply_int fmt (map (\<lambda>(k, m, other). m) df) of
                          Inl e \<Rightarrow> Inl e
                        | Inr u \<Rightarrow> Inr df)))"

text \<open>
  \<^verbatim>\<open>df = pd.read_csv('us_equities_meta_data.csv')
  with pd.HDFStore(DATA_STORE) as store:
      store.put('us_equities/stocks', df.set_index('ticker'))\<close>

  The cell under "Store result" binds \<open>df\<close> anew to the table read from the file
  \<open>us_equities_meta_data.csv\<close>, whose rows are given with the \<open>ticker\<close> column first;
  \<open>set_index('ticker')\<close> makes that column the index.
\<close>

definition set_index_ticker :: "(string \<times> 'm \<times> 'o) list \<Rightarrow> ('m, 'o) stocks" where
  "set_index_ticker df = map (\<lambda>(ticker, m, other). (ticker, m, other)) df"

definition us_equities_cells ::
  "(string \<Rightarrow> error + 'f option) \<Rightarrow> ('f \<Rightarrow> rat \<Rightarrow> 'f) \<Rightarrow> ('f list \<Rightarrow> error + unit) \<Rightarrow>
     (string \<times> string option \<times> 'o) list \<Rightarrow> (string \<times> 'f option \<times> 'o) list \<Rightarrow>
     ('c, 'o, 'f) frame hdfstore \<Rightarrow> error + ('c, 'o, 'f) frame hdfstore" where
  "us_equities_cells num fmul fmt listing us_equities_meta_data store =
     (case us_listing_cells num fmul fmt listing of
        Inl e \<Rightarrow> Inl e
      | Inr df \<Rightarrow>
          (let df = us_equities_meta_data
           in Inr (put ''us_equities/stocks'' (Stocks (set_index_ticker df)) store)))"

subsection \<open>Bond price indexes\<close>

text \<open>
  \<^verbatim>\<open>df = web.DataReader(name=list(securities.keys()), data_source='fred', start=2000)
  df = df.rename(columns=securities).dropna(how='all').resample('B').mean()
  with pd.HDFStore(DATA_STORE) as store:
      store.put('fred/assets', df)\<close>

  The table has one column per series and is indexed by date; a table is the list of its
  column names with the list of its rows, every row holding one cell per column.
\<close>

definition securities :: "(string \<times> string) list" where
  "securities =
     [(''BAMLCC0A0CMTRIV'', ''US Corp Master TRI''),
      (''BAMLHYH0A0HYM2TRIV'', ''US High Yield TRI''),
      (''BAMLEMCBPITRIV'', ''Emerging Markets Corporate Plus TRI''),
      (''GOLDAMGBD228NLBM'', ''Gold (London, USD)''),
      (''DGS10'', ''10-Year Treasury CMR'')]"

definition rename_columns :: "(string \<times> string) list \<Rightarrow> 'f assets \<Rightarrow> 'f assets" where
  "rename_columns names df =
     (map (\<lambda>c. case map_of names c of None \<Rightarrow> c | Some n \<Rightarrow> n) (fst df), snd df)"

definition dropna_how_all :: "'f assets \<Rightarrow> 'f assets" where
  "dropna_how_all df = (fst df, filter (\<lambda>(d, vs). \<not> list_all (\<lambda>v. v = None) vs) (snd df))"

text \<open>
  \<open>resample('B')\<close> cuts the time axis into bins that start at consecutive business
  days, closed on the left and labelled by their left edge: the first bin starts at the
  first date rolled back to a business day, the last bin holds the last date, a Saturday
  or a Sunday falls into the bin of the Friday before, and every business day in between
  labels a bin, holding rows or not. 1970-01-01 was a Thursday; \<open>weekday\<close> counts
  from Monday as 0.

  \<open>mean()\<close> averages each column over the values of the bin that are not NaN and is
  NaN when there are none. The mean of one or more values is a float64 computation of
  pandas: \<open>fmean\<close> gives its result, which is NaN only when the sum is.
\<close>

definition weekday :: "date \<Rightarrow> int" where
  "weekday d = (d + 3) mod 7"

definition rollback :: "date \<Rightarrow> date" where
  "rollback d = (if weekday d = 5 then d - 1 else if weekday d = 6 then d - 2 else d)"

definition mean :: "('f list \<Rightarrow> 'f option) \<Rightarrow> 'f option list \<Rightarrow> 'f option" where
  "mean fmean vs =
     (let xs = concat (map (\<lambda>v. case v of None \<Rightarrow> [] | Some x \<Rightarrow> [x]) vs)
      in if xs = [] then None else fmean xs)"

definition bin_rows :: "date \<Rightarrow> (date \<times> 'f option list) list \<Rightarrow> (date \<times> 'f option list) list" where
  "bin_rows b rows = filter (\<lambda>(d, vs). rollback d = b) rows"

definition bin_mean ::
  "('f list \<Rightarrow> 'f option) \<Rightarrow> nat \<Rightarrow> date \<Rightarrow> (date \<times> 'f option list) list \<Rightarrow> date \<times> 'f option list" where
  "bin_mean fmean ncols b rows =
     (b, map (\<lambda>j. mean fmean (map (\<lambda>(d, vs). vs ! j) (bin_rows b rows))) [0..<ncols])"

definition bin_labels :: "(date \<times> 'f option list) list \<Rightarrow> date list" where
  "bin_labels rows =
     (case rows of
        [] \<Rightarrow> []
      | r # rs \<Rightarrow>
          (let first = rollback (fold min (map fst rs) (fst r));
               last = rollback (fold max (map fst rs) (fst r))
           in filter (\<lambda>d. weekday d < 5) [first..last]))"

definition resample_B_mean :: "('f list \<Rightarrow> 'f option) \<Rightarrow> 'f assets \<Rightarrow> 'f assets" where
  "resample_B_mean fmean df =
     (fst df, map (\<lambda>b. bin_mean fmean (length (fst df)) b (snd df)) (bin_labels (snd df)))"

definition fred_assets_cell ::
  "('f list \<Rightarrow> 'f option) \<Rightarrow> 'f assets \<Rightarrow> ('c, 'o, 'f) frame hdfstore \<Rightarrow> ('c, 'o, 'f) frame hdfstore" where
  "fred_assets_cell fmean fred store =
     (let df = fred;
          df = resample_B_mean fmean (dropna_how_all (rename_columns securities df))
      in put ''fred/assets'' (Assets df) store)"

subsection \<open>Instances of the float64 operations\<close>

text \<open>
  To evaluate the cells on concrete tables, a float64 value that is neither NaN nor
  infinite is taken as the rational number it denotes. \<open>f64_round\<close> is the rounding of
  float64 arithmetic: to the nearest number with 53 significant bits, ties to the even
  one. It is the float64 result as long as that result neither overflows nor is
  subnormal, which is so on the tables evaluated below.
\<close>

function bit_length :: "int \<Rightarrow> int" where
  "bit_length n = (if n \<le> 0 then 0 else 1 + bit_length (n div 2))"
  by pat_completeness auto

termination
  by (relation "measure nat") auto

declare bit_length.simps [simp del]

definition pow2 :: "int \<Rightarrow> rat" where
  "pow2 e = (if 0 \<le> e then 2 ^ nat e else 1 / 2 ^ nat (- e))"

definition ilog2 :: "rat \<Rightarrow> int" where
  "ilog2 x =
     (let (a, b) = quotient_of x;
          e = bit_length a - bit_length b
      in if pow2 e \<le> x then e else e - 1)"

definition round_half_even :: "rat \<Rightarrow> int" where
  "round_half_even q =
     (let n = \<lfloor>q\<rfloor>; r = q - of_int n
      in if r < 1 / 2 then n else if 1 / 2 < r then n + 1 else if even n then n else n + 1)"

definition f64_round :: "rat \<Rightarrow> rat" where
  "f64_round x =
     (if x = 0 then 0
      else let e = ilog2 \<bar>x\<bar> - 52
           in of_int (round_half_even (x / pow2 e)) * pow2 e)"

definition f64_mul :: "rat \<Rightarrow> rat \<Rightarrow> rat" where
  "f64_mul x c = f64_round (x * c)"

text \<open>
  The mean as sum over count, the sum taken from left to right; and the formatting of
  the statistics of finite market caps, which does not raise.
\<close>

definition f64_mean :: "rat list \<Rightarrow> rat option" where
  "f64_mean xs = Some (f64_round (foldl (\<lambda>s x. f64_round (s + x)) 0 xs / of_nat (length xs)))"

definition fmt_finite :: "rat list \<Rightarrow> error + unit" where
  "fmt_finite xs = Inr ()"

text \<open>
  The conversion of an unsigned decimal literal (digits, optionally a point and more
  digits) to the nearest float64, with the empty string read as NaN as
  \<open>pd.to_numeric\<close> does: the instance of \<open>num\<close>.
\<close>

definition is_digit :: "char \<Rightarrow> bool" where
  "is_digit c = (CHR ''0'' \<le> c \<and> c \<le> CHR ''9'')"

definition nat_of_digits :: "string \<Rightarrow> nat" where
  "nat_of_digits ds = foldl (\<lambda>n c. 10 * n + (of_char c - 48)) 0 ds"

definition decimal_literal :: "string \<Rightarrow> error + rat option" where
  "decimal_literal s =
     (if s = [] then Inr None
      else let ip = takeWhile is_digit s; rest = dropWhile is_digit s
           in if rest = [] then Inr (Some (f64_round (of_nat (nat_of_digits ip))))
              else if hd rest = CHR ''.'' \<and> list_all is_digit (tl rest) \<and> (ip \<noteq> [] \<or> tl rest \<noteq> [])
              then Inr (Some (f64_round (of_nat (nat_of_digits (ip @ tl rest)) / 10 ^ length (tl rest))))
              else Inl ValueError)"

section \<open>Properties\<close>

subsection \<open>Duplicates\<close>

lemma getitem_bool_Nil [simp]: "getitem_bool msk [] = []"
  by (simp add: getitem_bool_def)

lemma getitem_bool_Cons [simp]:
  "getitem_bool (b # msk) (r # rows) =
     (if b then r # getitem_bool msk rows else getitem_bool msk rows)"
  by (simp add: getitem_bool_def)

text \<open>Dropping duplicates with a set of labels already seen: the recursion behind
  \<open>drop_duplicated\<close>.\<close>

lemma drop_from_Cons:
  "getitem_bool (map Not (duplicated_from seen (map fst (r # df)))) (r # df) =
     (if fst r \<in> set seen
      then getitem_bool (map Not (duplicated_from (fst r # seen) (map fst df))) df
      else r # getitem_bool (map Not (duplicated_from (fst r # seen) (map fst df))) df)"
  by simp

lemma drop_from_filter:
  "getitem_bool (map Not (duplicated_from seen (map fst df))) df =
     filter (\<lambda>r. fst r \<notin> set seen)
       (getitem_bool (map Not (duplicated_from [] (map fst df))) df)"
proof (induction df arbitrary: seen)
  case Nil
  show ?case by simp
next
  case (Cons r df)
  have a: "getitem_bool (map Not (duplicated_from (fst r # seen) (map fst df))) df =
      filter (\<lambda>x. fst x \<notin> set (fst r # seen))
        (getitem_bool (map Not (duplicated_from [] (map fst df))) df)"
    by (rule Cons.IH)
  have b: "getitem_bool (map Not (duplicated_from [fst r] (map fst df))) df =
      filter (\<lambda>x. fst x \<notin> set [fst r])
        (getitem_bool (map Not (duplicated_from [] (map fst df))) df)"
    by (rule Cons.IH)
  show ?case
    unfolding drop_from_Cons a b
    by (auto intro: filter_cong)
qed

lemma drop_duplicated_Nil [simp]: "drop_duplicated [] = []"
  by (simp add: drop_duplicated_def duplicated_def)

lemma drop_duplicated_Cons:
  "drop_duplicated (r # df) = r # filter (\<lambda>x. fst x \<noteq> fst r) (drop_duplicated df)"
proof -
  have "drop_duplicated (r # df) =
      r # getitem_bool (map Not (duplicated_from [fst r] (map fst df))) df"
    by (simp add: drop_duplicated_def duplicated_def)
  also have "getitem_bool (map Not (duplicated_from [fst r] (map fst df))) df =
      filter (\<lambda>x. fst x \<notin> set [fst r]) (drop_duplicated df)"
    unfolding drop_duplicated_def duplicated_def by (rule drop_from_filter)
  finally show ?thesis by simp
qed

lemma set_drop_duplicated_subset: "set (drop_duplicated df) \<subseteq> set df"
  by (induction df) (auto simp: drop_duplicated_Cons)

lemma keys_drop_duplicated: "fst ` set (drop_duplicated df) = fst ` set df"
proof (induction df)
  case Nil
  show ?case by simp
next
  case (Cons r df)
  have "fst ` set (drop_duplicated (r # df)) =
      insert (fst r) (fst ` set (drop_duplicated df) - {fst r})"
    by (auto simp: drop_duplicated_Cons)
  then show ?case using Cons.IH by auto
qed

lemma distinct_drop_duplicated: "distinct (map fst (drop_duplicated df))"
proof (induction df)
  case Nil
  show ?case by simp
next
  case (Cons r df)
  have "fst r \<notin> fst ` set (filter (\<lambda>x. fst x \<noteq> fst r) (drop_duplicated df))"
    by auto
  moreover have "distinct (map fst (filter (\<lambda>x. fst x \<noteq> fst r) (drop_duplicated df)))"
    using Cons.IH by (rule distinct_map_filter)
  ultimately show ?case by (simp add: drop_duplicated_Cons)
qed

lemma find_filter_neq:
  "k \<noteq> k' \<Longrightarrow> find (\<lambda>x. fst x = k) (filter (\<lambda>x. fst x \<noteq> k') xs) = find (\<lambda>x. fst x = k) xs"
  by (induction xs) auto

lemma find_drop_duplicated:
  "find (\<lambda>x. fst x = k) (drop_duplicated df) = find (\<lambda>x. fst x = k) df"
proof (induction df)
  case Nil
  show ?case by simp
next
  case (Cons r df)
  show ?case
  proof (cases "fst r = k")
    case True
    then show ?thesis by (simp add: drop_duplicated_Cons)
  next
    case False
    then have "find (\<lambda>x. fst x = k) (drop_duplicated (r # df)) =
        find (\<lambda>x. fst x = k) (drop_duplicated df)"
      by (simp add: drop_duplicated_Cons find_filter_neq)
    with False Cons.IH show ?thesis by simp
  qed
qed

lemma count_one_of_distinct:
  "distinct (map fst xs) \<Longrightarrow>
   length (filter (\<lambda>x. fst x = k) xs) = (if k \<in> fst ` set xs then 1 else 0)"
proof (induction xs)
  case Nil
  show ?case by simp
next
  case (Cons x xs)
  then have d: "fst x \<notin> fst ` set xs" and ih:
    "length (filter (\<lambda>x. fst x = k) xs) = (if k \<in> fst ` set xs then 1 else 0)"
    by auto
  show ?case using d ih by auto
qed

lemma subseq_drop_duplicated: "subseq (drop_duplicated df) df"
proof (induction df)
  case Nil
  show ?case by simp
next
  case (Cons r df)
  have "subseq (filter (\<lambda>x. fst x \<noteq> fst r) (drop_duplicated df)) (drop_duplicated df)"
    by simp
  then have "subseq (filter (\<lambda>x. fst x \<noteq> fst r) (drop_duplicated df)) df"
    using Cons.IH by (rule subseq_order.trans)
  then show ?case by (simp add: drop_duplicated_Cons)
qed

text \<open>
  C6. Dropping duplicated index labels keeps exactly one row for every label of the
  input and none for any other label, and the row kept for a label is the first row of
  the input that carries it.
\<close>

theorem drop_duplicated_keeps_first:
  "length (filter (\<lambda>x. fst x = k) (drop_duplicated df)) = (if k \<in> fst ` set df then 1 else 0)
   \<and> find (\<lambda>x. fst x = k) (drop_duplicated df) = find (\<lambda>x. fst x = k) df"
proof -
  have "length (filter (\<lambda>x. fst x = k) (drop_duplicated df)) =
      (if k \<in> fst ` set (drop_duplicated df) then 1 else 0)"
    using distinct_drop_duplicated by (rule count_one_of_distinct)
  then show ?thesis
    by (simp add: keys_drop_duplicated find_drop_duplicated)
qed

theorem drop_duplicated_keeps_first_witness:
  "drop_duplicated [(''A'', 1::nat), (''B'', 2), (''A'', 3), (''B'', 4), (''C'', 5)] =
     [(''A'', 1), (''B'', 2), (''C'', 5)]
   \<and> length (filter (\<lambda>x. fst x = ''A'')
       (drop_duplicated [(''A'', 1::nat), (''B'', 2), (''A'', 3), (''B'', 4), (''C'', 5)])) = 1
   \<and> find (\<lambda>x. fst x = ''A'')
       (drop_duplicated [(''A'', 1::nat), (''B'', 2), (''A'', 3), (''B'', 4), (''C'', 5)]) =
      Some (''A'', 1)"
  using drop_duplicated_keeps_first
    [of "''A''" "[(''A'', 1::nat), (''B'', 2), (''A'', 3), (''B'', 4), (''C'', 5)]"]
  by (simp add: drop_duplicated_def duplicated_def)

text \<open>
  C10. Dropping duplicated index labels does not reorder: the rows kept are a
  subsequence of the input, so two kept rows stand in the output in the order in which
  they stood in the input.
\<close>

theorem drop_duplicated_preserves_order: "subseq (drop_duplicated df) df"
  by (rule subseq_drop_duplicated)

subsection \<open>The keyed store\<close>

lemma map_of_filter_append:
  "map_of (filter (\<lambda>(k, _). k \<noteq> key) store @ [(key, v)]) key = Some v"
  by (induction store) auto

lemma filter_key_put:
  "filter (\<lambda>(k, _). k = key) (put key v store) = [(key, v)]"
  by (induction store) (auto simp: put_def)

lemma put_put: "put key v2 (put key v1 store) = put key v2 store"
  by (simp add: put_def filter_filter cong: conj_cong)  

lemma store_get_put: "store_get (put key v store) key = Some v"
  unfolding put_def store_get_def by (rule map_of_filter_append)

lemma store_get_put_other: "key' \<noteq> key \<Longrightarrow> store_get (put key v store) key' = store_get store key'"
  unfolding put_def store_get_def by (induction store) auto

text \<open>
  C8. Writing twice under one key leaves that key with the second payload alone: the
  store holds exactly one node for the key, it is the second payload, and the store is
  the one that the second write alone would have produced. Writing the same payload
  twice is therefore the same as writing it once.
\<close>

theorem put_overwrites:
  "store_get (put key p2 (put key p1 store)) key = Some p2
   \<and> filter (\<lambda>(k, _). k = key) (put key p2 (put key p1 store)) = [(key, p2)]
   \<and> put key p2 (put key p1 store) = put key p2 store
   \<and> put key p (put key p store) = put key p store"
  by (simp add: store_get_put filter_key_put put_put)

theorem put_overwrites_witness:
  "store_get (put ''k'' (2::nat) (put ''k'' 1 [(''j'', 0)])) ''k'' = Some 2
   \<and> put ''k'' (2::nat) (put ''k'' 1 [(''j'', 0)]) = [(''j'', 0), (''k'', 2)]"
  using put_overwrites [of "''k''" "2::nat" 1 "[(''j'', 0)]" 2]
  by (simp add: put_def)

subsection \<open>Quandl Wiki prices\<close>

text \<open>
  C7. The table read back from the store under \<open>quandl/wiki/prices\<close> is the price
  table sorted by its index: its sequence of (date, ticker) labels is non-decreasing,
  and it has the rows of the input table.
\<close>

theorem wiki_prices_sorted:
  "store_get (wiki_prices_cell wiki_prices_csv store) ''quandl/wiki/prices'' =
     Some (Prices (sort_index wiki_prices_csv))
   \<and> sorted (map fst (sort_index wiki_prices_csv))
   \<and> mset (sort_index wiki_prices_csv) = mset wiki_prices_csv"
  by (simp add: wiki_prices_cell_def store_get_put sort_index_def)

theorem wiki_prices_sorted_witness:
  "store_get (wiki_prices_cell
       [((3, ''B''), 1::nat), ((1, ''Z''), 2), ((3, ''A''), 3), ((1, ''AA''), 4)]
       ([] :: (nat, unit, rat) frame hdfstore)) ''quandl/wiki/prices'' =
     Some (Prices [((1, ''AA''), 4), ((1, ''Z''), 2), ((3, ''A''), 3), ((3, ''B''), 1)])
   \<and> sorted [(1::int, ''AA''), (1, ''Z''), (3, ''A''), (3, ''B'')]"
  using wiki_prices_sorted
    [of "[((3, ''B''), 1::nat), ((1, ''Z''), 2), ((3, ''A''), 3), ((1, ''AA''), 4)]"
        "[] :: (nat, unit, rat) frame hdfstore"]
  by (simp add: sort_index_def)

subsection \<open>Market capitalisation\<close>

lemma getitem_bool_map: "getitem_bool (map P xs) xs = filter P xs"
  by (induction xs) auto

lemma dropna_Nil [simp]: "dropna [] = []"
  by (simp add: dropna_def)

lemma dropna_Cons [simp]:
  "dropna ((k, v) # col) = (case v of None \<Rightarrow> dropna col | Some a \<Rightarrow> (k, a) # dropna col)"
  by (simp add: dropna_def split: option.split)

lemma set_dropna: "set (dropna col) = {(k, a). (k, Some a) \<in> set col}"
  by (induction col) (auto split: option.splits)

lemma dropna_filter:
  "dropna (filter (\<lambda>r. P (fst r)) col) = filter (\<lambda>r. P (fst r)) (dropna col)"
  by (induction col) (auto split: option.splits)

lemma getitem_marketcap_filter:
  "getitem_marketcap (filter (\<lambda>r. P (fst r)) df) = filter (\<lambda>r. P (fst r)) (getitem_marketcap df)"
  by (induction df) (auto simp: getitem_marketcap_def)

lemma set_getitem_marketcap:
  "set (getitem_marketcap df) = {(k, m). \<exists>other. (k, m, other) \<in> set df}"
  by (force simp: getitem_marketcap_def)

lemma add_suffix_filter:
  "add_suffix (filter (\<lambda>r. P (fst r)) mcap) = filter (\<lambda>r. P (fst r)) (add_suffix mcap)"
  by (induction mcap) (auto simp: add_suffix_def)

lemma map_fst_add_suffix [simp]: "map fst (add_suffix mcap) = map fst mcap"
  by (simp add: add_suffix_def case_prod_beta)

lemma map_fst_dropna_subseq: "subseq (map fst (dropna col)) (map fst col)"
  by (induction col) (auto split: option.splits)

lemma map_fst_getitem_marketcap [simp]: "map fst (getitem_marketcap df) = map fst df"
  by (simp add: getitem_marketcap_def case_prod_beta)

lemma endswith_units:
  "str_endswith [''B'', ''M''] (str_get_last s) =
     (if s = [] then None else Some (last s = CHR ''B'' \<or> last s = CHR ''M''))"
  by (auto simp: str_endswith_def str_get_last_def suffix_def)

lemma keep_units_add_suffix:
  "keep_units (add_suffix mcap) =
     (if [] \<in> snd ` set mcap then Inl ValueError
      else Inr (add_suffix (filter (\<lambda>(k, m). last m = CHR ''B'' \<or> last m = CHR ''M'') mcap)))"
proof -
  let ?f = "\<lambda>(k, m, sfx). str_endswith [''B'', ''M''] sfx"
  have m: "map ?f (add_suffix mcap) =
      map (\<lambda>(k, m). if m = [] then None else Some (last m = CHR ''B'' \<or> last m = CHR ''M'')) mcap"
    by (simp add: add_suffix_def case_prod_beta endswith_units)
  have n: "None \<in> set (map ?f (add_suffix mcap)) \<longleftrightarrow> [] \<in> snd ` set mcap"
    unfolding m by (force split: if_splits)
  have g: "getitem_bool (map (\<lambda>b. b = Some True) (map ?f (add_suffix mcap))) (add_suffix mcap) =
      filter (\<lambda>r. ?f r = Some True) (add_suffix mcap)"
    using getitem_bool_map [of "\<lambda>r. ?f r = Some True" "add_suffix mcap"]
    by (simp add: comp_def)
  have f: "[] \<notin> snd ` set mcap \<Longrightarrow> filter (\<lambda>r. ?f r = Some True) (add_suffix mcap) =
      add_suffix (filter (\<lambda>(k, m). last m = CHR ''B'' \<or> last m = CHR ''M'') mcap)"
    by (induction mcap) (auto simp: add_suffix_def endswith_units)
  show ?thesis
    unfolding keep_units_def getitem_mask_def n g using f by simp
qed

lemma to_numeric_Inr:
  "\<forall>s \<in> set ss. \<exists>v. num s = Inr v \<Longrightarrow> to_numeric num ss = Inr (map (\<lambda>s. projr (num s)) ss)"
  by (induction ss) auto

lemma to_numeric_Inl:
  "s \<in> set ss \<Longrightarrow> num s = Inl e \<Longrightarrow> \<exists>e'. to_numeric num ss = Inl e'"
  by (induction ss) (auto split: sum.splits)

lemma to_numeric_length: "to_numeric num ss = Inr vs \<Longrightarrow> length vs = length ss"
  by (induction ss arbitrary: vs) (auto split: sum.splits)

lemma apply_mcaps_eq:
  "apply_mcaps fmul mcap =
     map (\<lambda>(k, v, sfx).
        (k, (if sfx = Some ''B'' then map_option (\<lambda>x. fmul x (10 ^ 9)) v
             else if sfx = Some ''M'' then map_option (\<lambda>x. fmul x (10 ^ 6)) v else v), sfx)) mcap"
  by (auto simp: apply_mcaps_def mcaps_def mul_where_def)

lemma map_fst_apply_mcaps [simp]: "map fst (apply_mcaps fmul mcap) = map fst mcap"
  by (simp add: apply_mcaps_eq case_prod_beta)

lemma map_fst_set_marketcap:
  "length vals = length mcap \<Longrightarrow> map fst (set_marketcap mcap vals) = map fst mcap"
  by (induction mcap vals rule: list_induct2') (auto simp: set_marketcap_def)

lemma map_add_suffix:
  "map (\<lambda>(k, m, sfx). f m) (add_suffix mcap) = map (\<lambda>(k, m). f m) mcap"
  by (simp add: add_suffix_def case_prod_beta comp_def)

lemma convert_marketcap_eq:
  "convert_marketcap num fmul df =
     (if [] \<in> snd ` set (dropna (getitem_marketcap df)) then Inl ValueError
      else case to_numeric num (map (\<lambda>(k, m). str_slice_1_m1 m)
                 (filter (\<lambda>(k, m). last m = CHR ''B'' \<or> last m = CHR ''M'') (dropna (getitem_marketcap df)))) of
             Inl e \<Rightarrow> Inl e
           | Inr vals \<Rightarrow> Inr (apply_mcaps fmul (set_marketcap
                 (add_suffix (filter (\<lambda>(k, m). last m = CHR ''B'' \<or> last m = CHR ''M'')
                    (dropna (getitem_marketcap df)))) vals)))"
  unfolding convert_marketcap_def Let_def keep_units_add_suffix
  by (simp add: map_add_suffix)

lemma set_marketcap_map:
  "set_marketcap (add_suffix mcap) (map (\<lambda>(k, m). f m) mcap) =
     map (\<lambda>(k, m). (k, f m, str_get_last m)) mcap"
  by (induction mcap) (auto simp: set_marketcap_def add_suffix_def)

lemma convert_marketcap_Inr:
  assumes ne: "[] \<notin> snd ` set (dropna (getitem_marketcap df))"
    and ok: "\<forall>(k, m) \<in> set (dropna (getitem_marketcap df)).
               last m = CHR ''B'' \<or> last m = CHR ''M'' \<longrightarrow> (\<exists>x. num (str_slice_1_m1 m) = Inr x)"
  shows "convert_marketcap num fmul df =
     Inr (map (\<lambda>(k, m). (k, map_option (\<lambda>x. fmul x (if last m = CHR ''B'' then 10 ^ 9 else 10 ^ 6))
                               (projr (num (str_slice_1_m1 m))), Some [last m]))
           (filter (\<lambda>(k, m). last m = CHR ''B'' \<or> last m = CHR ''M'') (dropna (getitem_marketcap df))))"
proof -
  let ?u = "filter (\<lambda>(k, m). last m = CHR ''B'' \<or> last m = CHR ''M'') (dropna (getitem_marketcap df))"
  have "\<forall>s \<in> set (map (\<lambda>(k, m). str_slice_1_m1 m) ?u). \<exists>v. num s = Inr v"
    using ok by auto
  then have t: "to_numeric num (map (\<lambda>(k, m). str_slice_1_m1 m) ?u) =
      Inr (map (\<lambda>(k, m). projr (num (str_slice_1_m1 m))) ?u)"
    by (simp add: to_numeric_Inr comp_def case_prod_beta)
  have nonempty: "\<forall>(k, m) \<in> set ?u. m \<noteq> []"
    using ne by force
  have "apply_mcaps fmul (map (\<lambda>(k, m). (k, projr (num (str_slice_1_m1 m)), str_get_last m)) ?u) =
      map (\<lambda>(k, m). (k, map_option (\<lambda>x. fmul x (if last m = CHR ''B'' then 10 ^ 9 else 10 ^ 6))
                               (projr (num (str_slice_1_m1 m))), Some [last m])) ?u"
    unfolding apply_mcaps_eq using nonempty
    by (auto simp: str_get_last_def)
  then show ?thesis
    unfolding convert_marketcap_eq using ne t
    by (simp add: set_marketcap_map)
qed

lemma length_add_suffix [simp]: "length (add_suffix mcap) = length mcap"
  by (simp add: add_suffix_def)

lemma convert_marketcap_keys:
  assumes "convert_marketcap num fmul df = Inr mcap"
  shows "map fst mcap =
     map fst (filter (\<lambda>(k, m). last m = CHR ''B'' \<or> last m = CHR ''M'') (dropna (getitem_marketcap df)))"
  using assms unfolding convert_marketcap_eq
  by (auto split: if_splits sum.splits dest!: to_numeric_length simp: map_fst_set_marketcap)

lemma distinct_dropna_col: "distinct (map fst col) \<Longrightarrow> distinct (map fst (dropna col))"
  by (induction col) (force split: option.splits simp: set_dropna)+

lemma distinct_dropna:
  "distinct (map fst df) \<Longrightarrow> distinct (map fst (dropna (getitem_marketcap df)))"
  by (rule distinct_dropna_col) simp

lemma convert_marketcap_distinct:
  assumes "convert_marketcap num fmul df = Inr mcap" and "distinct (map fst df)"
  shows "distinct (map fst mcap)"
  using distinct_dropna [OF assms(2)] convert_marketcap_keys [OF assms(1)]
  by (simp add: distinct_map_filter)

lemma in_dropna_marketcap:
  "(k, Some m, other) \<in> set df \<Longrightarrow> (k, m) \<in> set (dropna (getitem_marketcap df))"
  by (force simp: set_dropna set_getitem_marketcap)

lemma str_slice_1_m1_snoc [simp]: "str_slice_1_m1 (c # body @ [d]) = body"
  by (simp add: str_slice_1_m1_def)

text \<open>
  C1, as the code has it. On a table on which the conversion does not raise, a
  market-cap string made of a leading \<open>$\<close>, a number that \<open>pd.to_numeric\<close>
  converts to \<open>v\<close>, and a final \<open>B\<close> or \<open>M\<close> is normalized to the float64
  product of \<open>v\<close> with \<open>1e9\<close> or \<open>1e6\<close>: the conversion returns a column in
  which the symbol of the row carries that product. The conversion does not raise when
  no market cap is the empty string and \<open>pd.to_numeric\<close> converts the remainder of
  every entry that ends with \<open>B\<close> or \<open>M\<close>; the index has no duplicates, as
  after \<open>drop_duplicated\<close>.
\<close>

theorem convert_marketcap_units:
  assumes row: "(k, Some (CHR ''$'' # body @ [c]), other) \<in> set df"
    and unit: "c = CHR ''B'' \<or> c = CHR ''M''"
    and parse: "num body = Inr (Some v)"
    and idx: "distinct (map fst df)"
    and run: "\<forall>r \<in> set df. \<forall>m. fst (snd r) = Some m \<longrightarrow>
               m \<noteq> [] \<and> (last m = CHR ''B'' \<or> last m = CHR ''M'' \<longrightarrow> (\<exists>x. num (str_slice_1_m1 m) = Inr x))"
  shows "\<exists>mcap. convert_marketcap num fmul df = Inr mcap
           \<and> map_of mcap k = Some (Some (fmul v (if c = CHR ''B'' then 10 ^ 9 else 10 ^ 6)), Some [c])"
proof -
  let ?u = "filter (\<lambda>(k, m). last m = CHR ''B'' \<or> last m = CHR ''M'') (dropna (getitem_marketcap df))"
  let ?g = "\<lambda>(k, m). (k, map_option (\<lambda>x. fmul x (if last m = CHR ''B'' then 10 ^ 9 else 10 ^ 6))
                               (projr (num (str_slice_1_m1 m))), Some [last m])"
  have ne: "[] \<notin> snd ` set (dropna (getitem_marketcap df))"
    using run by (force simp: set_dropna set_getitem_marketcap)
  have ok: "\<forall>(k, m) \<in> set (dropna (getitem_marketcap df)).
               last m = CHR ''B'' \<or> last m = CHR ''M'' \<longrightarrow> (\<exists>x. num (str_slice_1_m1 m) = Inr x)"
    using run by (force simp: set_dropna set_getitem_marketcap)
  have conv: "convert_marketcap num fmul df = Inr (map ?g ?u)"
    using ne ok by (rule convert_marketcap_Inr)
  have "(k, CHR ''$'' # body @ [c]) \<in> set ?u"
    using in_dropna_marketcap [OF row] unit by auto
  then have "?g (k, CHR ''$'' # body @ [c]) \<in> set (map ?g ?u)"
    unfolding set_map by (rule imageI)
  then have mem: "(k, Some (fmul v (if c = CHR ''B'' then 10 ^ 9 else 10 ^ 6)), Some [c]) \<in> set (map ?g ?u)"
    using parse by simp
  have "distinct (map fst (map ?g ?u))"
    using convert_marketcap_distinct [OF conv idx] .
  then have "map_of (map ?g ?u) k = Some (Some (fmul v (if c = CHR ''B'' then 10 ^ 9 else 10 ^ 6)), Some [c])"
    using mem by (rule map_of_is_SomeI)
  with conv show ?thesis by blast
qed

theorem convert_marketcap_units_witness:
  "decimal_literal ''1.5'' = Inr (Some (3 / 2))
   \<and> f64_mul (3 / 2) (10 ^ 9) = 1500000000
   \<and> (\<exists>mcap. convert_marketcap decimal_literal f64_mul
          [(''X'', Some ''$1.5B'', ()), (''Y'', Some ''$900M'', ()), (''Z'', Some ''n/a'', ())] = Inr mcap
        \<and> map_of mcap ''X'' = Some (Some 1500000000, Some ''B''))"
proof -
  let ?df = "[(''X'', Some ''$1.5B'', ()), (''Y'', Some ''$900M'', ()), (''Z'', Some ''n/a'', ())]"
  have p: "decimal_literal ''1.5'' = Inr (Some (3 / 2))"
    by code_simp
  have q: "decimal_literal ''900'' = Inr (Some 900)"
    by code_simp
  have m: "f64_mul (3 / 2) (10 ^ 9) = 1500000000"
    by code_simp
  have row: "(''X'', Some (CHR ''$'' # ''1.5'' @ [CHR ''B'']), ()) \<in> set ?df"
    by simp
  have unit: "CHR ''B'' = CHR ''B'' \<or> CHR ''B'' = CHR ''M''"
    by simp
  have idx: "distinct (map fst ?df)"
    by simp
  have run: "\<forall>r \<in> set ?df. \<forall>m. fst (snd r) = Some m \<longrightarrow>
      m \<noteq> [] \<and> (last m = CHR ''B'' \<or> last m = CHR ''M'' \<longrightarrow>
        (\<exists>x. decimal_literal (str_slice_1_m1 m) = Inr x))"
    by (simp add: str_slice_1_m1_def p q)
  from convert_marketcap_units [OF row unit p idx run, of f64_mul]
  have "\<exists>mcap. convert_marketcap decimal_literal f64_mul ?df = Inr mcap
      \<and> map_of mcap ''X'' = Some (Some (f64_mul (3 / 2) (10 ^ 9)), Some ''B'')"
    by simp
  with p m show ?thesis by simp
qed

theorem convert_marketcap_units_counterexample:
  "convert_marketcap decimal_literal f64_mul
     [(''A'', Some ''$1.5B'', ()), (''B'', Some ''$abcM'', ())] = Inl ValueError
   \<and> decimal_literal ''1.07'' = Inr (Some (4818851601286431 / 4503599627370496))
   \<and> convert_marketcap decimal_literal f64_mul [(''A'', Some ''$1.07B'', ())] =
       Inr [(''A'', Some (8975810560000001 / 8388608), Some ''B'')]
   \<and> (8975810560000001 / 8388608 :: rat) \<noteq> 4818851601286431 / 4503599627370496 * 10 ^ 9"
proof (intro conjI)
  show "convert_marketcap decimal_literal f64_mul
     [(''A'', Some ''$1.5B'', ()), (''B'', Some ''$abcM'', ())] = Inl ValueError"
    by code_simp
  show "decimal_literal ''1.07'' = Inr (Some (4818851601286431 / 4503599627370496))"
    by code_simp
  show "convert_marketcap decimal_literal f64_mul [(''A'', Some ''$1.07B'', ())] =
       Inr [(''A'', Some (8975810560000001 / 8388608), Some ''B'')]"
    by code_simp
  show "(8975810560000001 / 8388608 :: rat) \<noteq> 4818851601286431 / 4503599627370496 * 10 ^ 9"
    by simp
qed

lemma assign_marketcap_lookup:
  assumes "distinct (map fst mcap)"
  shows "assign_marketcap df mcap =
     Inr (map (\<lambda>(k, m, other).
            (k, (case map_of mcap k of None \<Rightarrow> None | Some (v, sfx) \<Rightarrow> v), other)) df)"
proof (cases "map fst mcap = map fst df")
  case False
  with assms show ?thesis by (simp add: assign_marketcap_def)
next
  case True
  have "length df = length mcap"
    using True by (metis length_map)
  then have "distinct (map fst mcap) \<Longrightarrow> map fst mcap = map fst df \<Longrightarrow>
      map (\<lambda>((k, m, other), (k', v, sfx)). (k, v, other)) (zip df mcap) =
      map (\<lambda>(k, m, other).
            (k, (case map_of mcap k of None \<Rightarrow> None | Some (v, sfx) \<Rightarrow> v), other)) df"
  proof (induction df mcap rule: list_induct2)
    case Nil
    show ?case by simp
  next
    case (Cons r df x mcap)
    have k: "fst x = fst r" and d: "distinct (map fst mcap)" and e: "map fst mcap = map fst df"
      using Cons.prems by auto
    have "fst x \<notin> set (map fst mcap)"
      using Cons.prems(1) by simp
    then have n: "fst r \<notin> fst ` set df"
      unfolding e k by simp
    have "map (\<lambda>(k, m, other).
            (k, (case map_of (x # mcap) k of None \<Rightarrow> None | Some (v, sfx) \<Rightarrow> v), other)) df =
        map (\<lambda>(k, m, other).
            (k, (case map_of mcap k of None \<Rightarrow> None | Some (v, sfx) \<Rightarrow> v), other)) df"
      using n k by (intro map_cong) (auto simp: rev_image_eqI)
    then show ?case
      using Cons.IH [OF d e] k by (auto simp: case_prod_beta)
  qed
  with assms True show ?thesis by (simp add: assign_marketcap_def)
qed

text \<open>
  C9. Assigning the normalized column to \<open>df['marketcap']\<close> changes only that column.
  For a normalized column with one value per symbol, the assignment returns a table
  with the rows of \<open>df\<close> in the same order, the same index and the same other columns;
  the market cap of a row is the value the normalized column holds for its symbol, and
  missing when the normalized column has no entry for the symbol.
\<close>

theorem assign_marketcap_frame:
  assumes "distinct (map fst mcap)"
  shows "\<exists>df'. assign_marketcap df mcap = Inr df'
           \<and> map (\<lambda>(k, m, other). (k, other)) df' = map (\<lambda>(k, m, other). (k, other)) df
           \<and> map (\<lambda>(k, m, other). m) df' =
               map (\<lambda>(k, m, other). case map_of mcap k of None \<Rightarrow> None | Some (v, sfx) \<Rightarrow> v) df"
  unfolding assign_marketcap_lookup [OF assms]
  by (simp add: case_prod_beta comp_def)

theorem assign_marketcap_frame_witness:
  "assign_marketcap [(''A'', Some ''$2.1B'', 1::nat), (''B'', Some ''n/a'', 2), (''C'', None, 3)]
       [(''A'', Some (2100000000::rat), Some ''B'')] =
     Inr [(''A'', Some 2100000000, 1), (''B'', None, 2), (''C'', None, 3)]"
proof -
  have d: "distinct (map fst [(''A'', Some (2100000000::rat), Some ''B'')])"
    by simp
  have c: "assign_marketcap [(''A'', Some ''$2.1B'', 1::nat), (''B'', Some ''n/a'', 2), (''C'', None, 3)]
       [(''A'', Some (2100000000::rat), Some ''B'')] =
     Inr [(''A'', Some 2100000000, 1), (''B'', None, 2), (''C'', None, 3)]"
    by (simp add: assign_marketcap_def)
  from assign_marketcap_frame [OF d, of "[(''A'', Some ''$2.1B'', 1::nat), (''B'', Some ''n/a'', 2), (''C'', None, 3)]"] c
  show ?thesis by simp
qed

lemma filter_filter_absorb:
  "\<forall>x \<in> set xs. P x \<longrightarrow> Q x \<Longrightarrow> filter P (filter Q xs) = filter P xs"
  by (induction xs) auto

lemma convert_marketcap_drop_row:
  assumes row: "(k, Some m, other) \<in> set df"
    and idx: "distinct (map fst df)"
    and ne: "m \<noteq> []"
    and nounit: "last m \<noteq> CHR ''B''" "last m \<noteq> CHR ''M''"
  shows "convert_marketcap num fmul (filter (\<lambda>r. fst r \<noteq> k) df) = convert_marketcap num fmul df"
proof -
  let ?X = "dropna (getitem_marketcap df)"
  let ?unit = "\<lambda>(k, m). last m = CHR ''B'' \<or> last m = CHR ''M''"
  have X: "dropna (getitem_marketcap (filter (\<lambda>r. fst r \<noteq> k) df)) = filter (\<lambda>r. fst r \<noteq> k) ?X"
    unfolding getitem_marketcap_filter [of "\<lambda>x. x \<noteq> k"] dropna_filter [of "\<lambda>x. x \<noteq> k"] ..
  have mem: "(k, m) \<in> set ?X"
    using row by (rule in_dropna_marketcap)
  have d: "distinct (map fst ?X)"
    using idx by (rule distinct_dropna)
  have uniq: "m' = m" if "(k, m') \<in> set ?X" for m'
    using d that mem by (rule eq_key_imp_eq_value)
  have e: "[] \<in> snd ` set (filter (\<lambda>r. fst r \<noteq> k) ?X) \<longleftrightarrow> [] \<in> snd ` set ?X"
    using uniq ne by force
  have "\<forall>x \<in> set ?X. ?unit x \<longrightarrow> fst x \<noteq> k"
    using uniq nounit by force
  then have f: "filter ?unit (filter (\<lambda>r. fst r \<noteq> k) ?X) = filter ?unit ?X"
    by (rule filter_filter_absorb)
  show ?thesis
    unfolding convert_marketcap_eq X e f ..
qed

lemma convert_marketcap_no_key:
  assumes row: "(k, Some m, other) \<in> set df"
    and idx: "distinct (map fst df)"
    and nounit: "last m \<noteq> CHR ''B''" "last m \<noteq> CHR ''M''"
    and conv: "convert_marketcap num fmul df = Inr mcap"
  shows "k \<notin> fst ` set mcap"
proof
  let ?X = "dropna (getitem_marketcap df)"
  assume "k \<in> fst ` set mcap"
  then have "k \<in> set (map fst mcap)" by simp
  then have "k \<in> set (map fst (filter (\<lambda>(k, m). last m = CHR ''B'' \<or> last m = CHR ''M'') ?X))"
    unfolding convert_marketcap_keys [OF conv] .
  then obtain m' where m': "(k, m') \<in> set ?X" "last m' = CHR ''B'' \<or> last m' = CHR ''M''"
    by auto
  have "m' = m"
    using distinct_dropna [OF idx] m'(1) in_dropna_marketcap [OF row] by (rule eq_key_imp_eq_value)
  with m'(2) nounit show False by simp
qed

text \<open>
  C3. A market-cap string whose last character is neither \<open>B\<close> nor \<open>M\<close> gets no
  value. In a table with a duplicate-free index, the conversion behaves as if the row
  were not in the table; whenever it returns a column, the symbol of the row is not in
  it, and the row of the table then has a missing market cap after the assignment, not
  a zero.
\<close>

theorem convert_marketcap_other_suffix:
  assumes row: "(k, Some m, other) \<in> set df"
    and idx: "distinct (map fst df)"
    and ne: "m \<noteq> []"
    and nounit: "last m \<noteq> CHR ''B''" "last m \<noteq> CHR ''M''"
  shows "convert_marketcap num fmul df = convert_marketcap num fmul (filter (\<lambda>r. fst r \<noteq> k) df)
    \<and> (\<forall>mcap. convert_marketcap num fmul df = Inr mcap \<longrightarrow>
          k \<notin> fst ` set mcap
          \<and> (\<exists>df'. assign_marketcap df mcap = Inr df' \<and> (k, None, other) \<in> set df'))"
proof (intro conjI allI impI)
  show "convert_marketcap num fmul df = convert_marketcap num fmul (filter (\<lambda>r. fst r \<noteq> k) df)"
    using convert_marketcap_drop_row [OF row idx ne nounit, of num fmul] by simp
next
  fix mcap
  assume conv: "convert_marketcap num fmul df = Inr mcap"
  show nk: "k \<notin> fst ` set mcap"
    using row idx nounit conv by (rule convert_marketcap_no_key)
  have none: "map_of mcap k = None"
    using nk by (simp add: map_of_eq_None_iff)
  let ?f = "\<lambda>(k, m, other). (k, (case map_of mcap k of None \<Rightarrow> None | Some (v, sfx) \<Rightarrow> v), other)"
  have a: "assign_marketcap df mcap = Inr (map ?f df)"
    using convert_marketcap_distinct [OF conv idx] by (rule assign_marketcap_lookup)
  have "?f (k, Some m, other) \<in> set (map ?f df)"
    unfolding set_map using row by (rule imageI)
  then have "(k, None, other) \<in> set (map ?f df)"
    using none by simp
  with a show "\<exists>df'. assign_marketcap df mcap = Inr df' \<and> (k, None, other) \<in> set df'"
    by blast
qed

theorem convert_marketcap_other_suffix_witness:
  "convert_marketcap decimal_literal f64_mul
       [(''A'', Some ''$2.1B'', ()), (''B'', Some ''$900M'', ()), (''C'', Some ''$50K'', ())] =
     Inr [(''A'', Some 2100000000, Some ''B''), (''B'', Some 900000000, Some ''M'')]
   \<and> ''C'' \<notin> fst ` set [(''A'', Some (2100000000::rat), Some ''B''), (''B'', Some 900000000, Some ''M'')]
   \<and> (\<exists>df'. assign_marketcap
          [(''A'', Some ''$2.1B'', ()), (''B'', Some ''$900M'', ()), (''C'', Some ''$50K'', ())]
          [(''A'', Some (2100000000::rat), Some ''B''), (''B'', Some 900000000, Some ''M'')] = Inr df'
        \<and> (''C'', None, ()) \<in> set df')"
proof -
  let ?df = "[(''A'', Some ''$2.1B'', ()), (''B'', Some ''$900M'', ()), (''C'', Some ''$50K'', ())]"
  let ?mcap = "[(''A'', Some (2100000000::rat), Some ''B''), (''B'', Some 900000000, Some ''M'')]"
  have c: "convert_marketcap decimal_literal f64_mul ?df = Inr ?mcap"
    by code_simp
  have row: "(''C'', Some ''$50K'', ()) \<in> set ?df"
    by simp
  have idx: "distinct (map fst ?df)"
    by simp
  have ne: "''$50K'' \<noteq> []"
    by simp
  have n1: "last ''$50K'' \<noteq> CHR ''B''" and n2: "last ''$50K'' \<noteq> CHR ''M''"
    by simp_all
  from convert_marketcap_other_suffix [OF row idx ne n1 n2, of decimal_literal f64_mul]
  have "\<forall>mcap. convert_marketcap decimal_literal f64_mul ?df = Inr mcap \<longrightarrow>
          ''C'' \<notin> fst ` set mcap
          \<and> (\<exists>df'. assign_marketcap ?df mcap = Inr df' \<and> (''C'', None, ()) \<in> set df')"
    by (rule conjunct2)
  then have "''C'' \<notin> fst ` set ?mcap
          \<and> (\<exists>df'. assign_marketcap ?df ?mcap = Inr df' \<and> (''C'', None, ()) \<in> set df')"
    using c by blast
  with c show ?thesis by blast
qed

text \<open>
  C4, as the code has it. An entry that ends with \<open>B\<close> or \<open>M\<close> and whose remainder
  \<open>pd.to_numeric\<close> cannot convert makes the conversion raise: the normalization stops
  with an error and returns no column for any row.
\<close>

theorem convert_marketcap_unparseable_raises:
  assumes row: "(k, Some m, other) \<in> set df"
    and ne: "m \<noteq> []"
    and unit: "last m = CHR ''B'' \<or> last m = CHR ''M''"
    and bad: "num (str_slice_1_m1 m) = Inl e"
  shows "\<exists>e'. convert_marketcap num fmul df = Inl e'"
proof (cases "[] \<in> snd ` set (dropna (getitem_marketcap df))")
  case True
  then show ?thesis by (simp add: convert_marketcap_eq)
next
  case False
  let ?u = "filter (\<lambda>(k, m). last m = CHR ''B'' \<or> last m = CHR ''M'') (dropna (getitem_marketcap df))"
  have "(k, m) \<in> set ?u"
    using in_dropna_marketcap [OF row] unit by simp
  then have "str_slice_1_m1 m \<in> set (map (\<lambda>(k, m). str_slice_1_m1 m) ?u)"
    by force
  then obtain e' where "to_numeric num (map (\<lambda>(k, m). str_slice_1_m1 m) ?u) = Inl e'"
    using bad to_numeric_Inl by blast
  with False show ?thesis by (simp add: convert_marketcap_eq)
qed

theorem convert_marketcap_unparseable_raises_witness:
  "decimal_literal (str_slice_1_m1 ''$1,2M'') = Inl ValueError
   \<and> (\<exists>e'. convert_marketcap decimal_literal f64_mul
          [(''A'', Some ''$1.5B'', ()), (''B'', Some ''$1,2M'', ())] = Inl e')"
proof -
  have p: "decimal_literal (str_slice_1_m1 ''$1,2M'') = Inl ValueError"
    by code_simp
  have row: "(''B'', Some ''$1,2M'', ()) \<in> set [(''A'', Some ''$1.5B'', ()), (''B'', Some ''$1,2M'', ())]"
    by simp
  have ne: "''$1,2M'' \<noteq> []"
    by simp
  have u: "last ''$1,2M'' = CHR ''B'' \<or> last ''$1,2M'' = CHR ''M''"
    by simp
  from convert_marketcap_unparseable_raises [where num = decimal_literal and fmul = f64_mul, OF row ne u p] p
  show ?thesis by (rule conjI [rotated])
qed

theorem convert_marketcap_unparseable_counterexample:
  "convert_marketcap decimal_literal f64_mul [(''A'', Some ''$abcM'', ()), (''B'', Some ''$1.5B'', ())] =
     Inl ValueError"
  by code_simp

subsection \<open>The table stored under \<open>us_equities/stocks\<close>\<close>

lemma set_index_ticker_id [simp]: "set_index_ticker df = df"
  by (simp add: set_index_ticker_def case_prod_beta)

lemma us_listing_one_market_cap:
  "us_listing_cells decimal_literal f64_mul fmt_finite [(''AAA'', Some ''$1.5B'', ())] = Inl ValueError"
  by code_simp

lemma us_listing_no_market_cap:
  "us_listing_cells decimal_literal f64_mul fmt_finite
     [(''AAA'', None, ()), (''BBB'', None, ())] = Inl KeyError"
  by code_simp

text \<open>
  C2, as the code has it. The table stored under \<open>us_equities/stocks\<close> is the table
  read from the file \<open>us_equities_meta_data.csv\<close>, indexed by ticker. Whenever the
  cells that normalize the exchange listing run without an error, the store is written,
  and what it holds under the key depends on the file alone, not on the normalized
  listing.
\<close>

theorem us_equities_stored:
  assumes "us_listing_cells num fmul fmt listing = Inr df0"
  shows "\<exists>st. us_equities_cells num fmul fmt listing us_equities_meta_data store = Inr st
           \<and> store_get st ''us_equities/stocks'' = Some (Stocks (set_index_ticker us_equities_meta_data))"
  using assms by (simp add: us_equities_cells_def store_get_put)

theorem us_equities_stored_witness:
  "us_listing_cells decimal_literal f64_mul fmt_finite
       [(''AAA'', Some ''$1.5B'', ()), (''BBB'', Some ''$900M'', ())] =
     Inr [(''AAA'', Some 1500000000, ()), (''BBB'', Some 900000000, ())]
   \<and> (\<exists>st. us_equities_cells decimal_literal f64_mul fmt_finite
              [(''AAA'', Some ''$1.5B'', ()), (''BBB'', Some ''$900M'', ())]
              [(''AAA'', Some 7, ()), (''BBB'', None, ())]
              ([] :: (unit, unit, rat) frame hdfstore) = Inr st
          \<and> store_get st ''us_equities/stocks'' =
              Some (Stocks [(''AAA'', Some 7, ()), (''BBB'', None, ())]))"
proof -
  have l: "us_listing_cells decimal_literal f64_mul fmt_finite
       [(''AAA'', Some ''$1.5B'', ()), (''BBB'', Some ''$900M'', ())] =
     Inr [(''AAA'', Some 1500000000, ()), (''BBB'', Some 900000000, ())]"
    by code_simp
  from us_equities_stored [OF l, of "[(''AAA'', Some 7, ()), (''BBB'', None, ())]"
      "[] :: (unit, unit, rat) frame hdfstore"] l
  show ?thesis by simp
qed

theorem us_equities_stored_counterexample:
  "us_listing_cells decimal_literal f64_mul fmt_finite
       [(''AAA'', Some ''$1.5B'', ()), (''BBB'', Some ''$900M'', ())] =
     Inr [(''AAA'', Some 1500000000, ()), (''BBB'', Some 900000000, ())]
   \<and> us_equities_cells decimal_literal f64_mul fmt_finite
        [(''AAA'', Some ''$1.5B'', ()), (''BBB'', Some ''$900M'', ())]
        [(''AAA'', Some 7, ()), (''BBB'', None, ())]
        ([] :: (unit, unit, rat) frame hdfstore) =
      Inr [(''us_equities/stocks'', Stocks [(''AAA'', Some 7, ()), (''BBB'', None, ())])]
   \<and> Stocks [(''AAA'', Some 7, ()), (''BBB'', None, ())] \<noteq>
      (Stocks [(''AAA'', Some 1500000000, ()), (''BBB'', Some 900000000, ())] :: (unit, unit, rat) frame)"
proof -
  have l: "us_listing_cells decimal_literal f64_mul fmt_finite
       [(''AAA'', Some ''$1.5B'', ()), (''BBB'', Some ''$900M'', ())] =
     Inr [(''AAA'', Some 1500000000, ()), (''BBB'', Some 900000000, ())]"
    by code_simp
  then show ?thesis
    by (simp add: us_equities_cells_def put_def)
qed

subsection \<open>Bond price indexes\<close>

lemma weekday_range: "0 \<le> weekday d \<and> weekday d < 7"
  by (simp add: weekday_def)

lemma weekday_rollback: "weekday (rollback d) < 5"
  unfolding rollback_def weekday_def by presburger

lemma rollback_business_day: "weekday b < 5 \<Longrightarrow> rollback b = b"
  by (simp add: rollback_def)

lemma rollback_mono: "d \<le> d' \<Longrightarrow> rollback d \<le> rollback d'"
  unfolding rollback_def weekday_def by presburger

lemma fold_min_Min: "fold min xs (x::int) = Min (set (x # xs))"
  by (simp only: Min.set_eq_fold)

lemma fold_max_Max: "fold max xs (x::int) = Max (set (x # xs))"
  by (simp only: Max.set_eq_fold)

lemma set_bin_labels:
  "set (bin_labels rows) =
     {b. weekday b < 5 \<and> (\<exists>r \<in> set rows. rollback (fst r) \<le> b) \<and> (\<exists>r \<in> set rows. b \<le> rollback (fst r))}"
proof (cases rows)
  case Nil
  then show ?thesis by (simp add: bin_labels_def)
next
  case (Cons r rs)
  let ?D = "set (map fst rows)"
  have fin: "finite ?D" and ne: "?D \<noteq> {}"
    using Cons by auto
  have lo: "rollback (Min ?D) \<le> b \<longleftrightarrow> (\<exists>r \<in> set rows. rollback (fst r) \<le> b)" for b
  proof
    assume "rollback (Min ?D) \<le> b"
    moreover have "Min ?D \<in> ?D" using fin ne by (rule Min_in)
    ultimately show "\<exists>r \<in> set rows. rollback (fst r) \<le> b" by force
  next
    assume "\<exists>r \<in> set rows. rollback (fst r) \<le> b"
    then obtain x where x: "x \<in> set rows" "rollback (fst x) \<le> b" by blast
    have "Min ?D \<le> fst x" using fin x(1) by (intro Min_le) auto
    then have "rollback (Min ?D) \<le> rollback (fst x)" by (rule rollback_mono)
    with x(2) show "rollback (Min ?D) \<le> b" by simp
  qed
  have hi: "b \<le> rollback (Max ?D) \<longleftrightarrow> (\<exists>r \<in> set rows. b \<le> rollback (fst r))" for b
  proof
    assume "b \<le> rollback (Max ?D)"
    moreover have "Max ?D \<in> ?D" using fin ne by (rule Max_in)
    ultimately show "\<exists>r \<in> set rows. b \<le> rollback (fst r)" by force
  next
    assume "\<exists>r \<in> set rows. b \<le> rollback (fst r)"
    then obtain x where x: "x \<in> set rows" "b \<le> rollback (fst x)" by blast
    have "fst x \<le> Max ?D" using fin x(1) by (intro Max_ge) auto
    then have "rollback (fst x) \<le> rollback (Max ?D)" by (rule rollback_mono)
    with x(2) show "b \<le> rollback (Max ?D)" by simp
  qed
  have "bin_labels rows = filter (\<lambda>d. weekday d < 5) [rollback (Min ?D)..rollback (Max ?D)]"
    using Cons by (simp add: bin_labels_def fold_min_Min fold_max_Max)
  then show ?thesis
    using lo hi by auto
qed

lemma sorted_bin_labels: "sorted (bin_labels rows)"
  by (cases rows) (simp_all add: bin_labels_def Let_def sorted_wrt_filter)

lemma distinct_bin_labels: "distinct (bin_labels rows)"
  by (cases rows) (simp_all add: bin_labels_def Let_def)

lemma mean_all_None: "\<forall>v \<in> set vs. v = None \<Longrightarrow> mean fmean vs = None"
proof -
  assume "\<forall>v \<in> set vs. v = None"
  then have "concat (map (\<lambda>v. case v of None \<Rightarrow> [] | Some x \<Rightarrow> [x]) vs) = []"
    by (induction vs) auto
  then show ?thesis by (simp add: mean_def)
qed

lemma mean_None_some:
  assumes "mean fmean vs = None" and "\<forall>xs. xs \<noteq> [] \<longrightarrow> fmean xs \<noteq> None"
  shows "\<forall>v \<in> set vs. v = None"
proof -
  have e: "concat (map (\<lambda>v. case v of None \<Rightarrow> [] | Some x \<Rightarrow> [x]) vs) = [] \<longleftrightarrow> (\<forall>v \<in> set vs. v = None)"
    by (induction vs) (auto split: option.splits)
  show ?thesis
  proof (cases "concat (map (\<lambda>v. case v of None \<Rightarrow> [] | Some x \<Rightarrow> [x]) vs) = []")
    case True
    then show ?thesis using e by simp
  next
    case False
    then have "mean fmean vs = fmean (concat (map (\<lambda>v. case v of None \<Rightarrow> [] | Some x \<Rightarrow> [x]) vs))"
      unfolding mean_def Let_def by (simp only: if_False)
    with assms False show ?thesis by metis
  qed
qed

lemma snd_dropna_how_all:
  "set (snd (dropna_how_all df)) = {r \<in> set (snd df). \<exists>v \<in> set (snd r). v \<noteq> None}"
  by (auto simp: dropna_how_all_def list_all_iff)

lemma snd_dropna_rename:
  "snd (dropna_how_all (rename_columns names df)) = snd (dropna_how_all df)"
  by (simp add: dropna_how_all_def rename_columns_def)

lemma length_fst_dropna_rename:
  "length (fst (dropna_how_all (rename_columns names df))) = length (fst df)"
  by (simp add: dropna_how_all_def rename_columns_def)

lemma bin_mean_empty:
  "bin_rows b kept = [] \<Longrightarrow> list_all (\<lambda>v. v = None) (snd (bin_mean fmean n b kept))"
  by (simp add: bin_mean_def list_all_iff mean_def)

lemma bin_mean_all_None:
  assumes rect: "\<forall>r \<in> set kept. length (snd r) = n"
    and some: "\<forall>r \<in> set kept. \<exists>v \<in> set (snd r). v \<noteq> None"
    and nonan: "\<forall>xs. xs \<noteq> [] \<longrightarrow> fmean xs \<noteq> None"
    and a: "list_all (\<lambda>v. v = None) (snd (bin_mean fmean n b kept))"
  shows "bin_rows b kept = []"
proof (rule ccontr)
  assume "bin_rows b kept \<noteq> []"
  then obtain r where r: "r \<in> set (bin_rows b kept)"
    by (cases "bin_rows b kept") auto
  then have rk: "r \<in> set kept"
    by (simp add: bin_rows_def)
  obtain v where v: "v \<in> set (snd r)" "v \<noteq> None"
    using some rk by blast
  then obtain j where j: "j < length (snd r)" "snd r ! j = v"
    by (auto simp: in_set_conv_nth)
  have jn: "j < n"
    using rect rk j(1) by simp
  have "mean fmean (map (\<lambda>(d, vs). vs ! j) (bin_rows b kept)) = None"
    using a jn by (simp add: bin_mean_def list_all_iff)
  then have "\<forall>x \<in> set (map (\<lambda>(d, vs). vs ! j) (bin_rows b kept)). x = None"
    using nonan by (rule mean_None_some)
  then have "snd r ! j = None"
    using r by (auto simp: case_prod_beta)
  with j(2) v(2) show False by simp
qed

text \<open>
  C5, as the code has it. The table stored under \<open>fred/assets\<close> comes from the rows
  that are left after the rows with every series missing are dropped. It has exactly one
  row for every business day from the first to the last of these rows, a date on a
  weekend counting as the Friday before; the dates of its rows are ascending and
  distinct. A row holds, series by series, the float64 mean that pandas computes of the
  values that are not missing in the rows of its bin. A business day in this range on
  which no row is left still has a row, with every series missing; and when the table
  is rectangular and the mean of values is never NaN, no other row has every series
  missing.
\<close>

theorem fred_assets_rows:
  "\<exists>cols out.
      store_get (fred_assets_cell fmean fred store) ''fred/assets'' = Some (Assets (cols, out))
    \<and> sorted (map fst out) \<and> distinct (map fst out)
    \<and> set (map fst out) =
        {b. weekday b < 5
          \<and> (\<exists>r \<in> set (snd (dropna_how_all fred)). rollback (fst r) \<le> b)
          \<and> (\<exists>r \<in> set (snd (dropna_how_all fred)). b \<le> rollback (fst r))}
    \<and> (\<forall>(b, vs) \<in> set out.
          vs = map (\<lambda>j. mean fmean (map (\<lambda>(d, vs). vs ! j) (bin_rows b (snd (dropna_how_all fred)))))
                 [0..<length (fst fred)]
          \<and> (bin_rows b (snd (dropna_how_all fred)) = [] \<longrightarrow> list_all (\<lambda>v. v = None) vs)
          \<and> ((\<forall>r \<in> set (snd fred). length (snd r) = length (fst fred))
               \<and> (\<forall>xs. xs \<noteq> [] \<longrightarrow> fmean xs \<noteq> None)
               \<and> list_all (\<lambda>v. v = None) vs
              \<longrightarrow> bin_rows b (snd (dropna_how_all fred)) = []))"
proof -
  let ?df = "dropna_how_all (rename_columns securities fred)"
  let ?kept = "snd (dropna_how_all fred)"
  let ?n = "length (fst fred)"
  let ?out = "map (\<lambda>b. bin_mean fmean ?n b ?kept) (bin_labels ?kept)"
  have res: "resample_B_mean fmean ?df = (fst ?df, ?out)"
    by (simp add: resample_B_mean_def snd_dropna_rename length_fst_dropna_rename)
  have st: "store_get (fred_assets_cell fmean fred store) ''fred/assets'' = Some (Assets (fst ?df, ?out))"
    by (simp add: fred_assets_cell_def store_get_put res)
  have lab: "map fst ?out = bin_labels ?kept"
    by (simp add: bin_mean_def comp_def)
  have sk: "\<forall>r \<in> set ?kept. \<exists>v \<in> set (snd r). v \<noteq> None"
    by (simp add: snd_dropna_how_all)
  have rows: "\<forall>(b, vs) \<in> set ?out.
          vs = map (\<lambda>j. mean fmean (map (\<lambda>(d, vs). vs ! j) (bin_rows b ?kept))) [0..<?n]
          \<and> (bin_rows b ?kept = [] \<longrightarrow> list_all (\<lambda>v. v = None) vs)
          \<and> ((\<forall>r \<in> set (snd fred). length (snd r) = ?n)
               \<and> (\<forall>xs. xs \<noteq> [] \<longrightarrow> fmean xs \<noteq> None)
               \<and> list_all (\<lambda>v. v = None) vs
              \<longrightarrow> bin_rows b ?kept = [])"
  proof (clarify, intro conjI impI)
    fix b vs
    assume "(b, vs) \<in> set ?out"
    then obtain b' where b': "(b, vs) = bin_mean fmean ?n b' ?kept"
      by auto
    then have bb: "b' = b"
      by (simp add: bin_mean_def)
    show "vs = map (\<lambda>j. mean fmean (map (\<lambda>(d, vs). vs ! j) (bin_rows b ?kept))) [0..<?n]"
      using b' unfolding bb by (simp add: bin_mean_def)
    have vs: "vs = snd (bin_mean fmean ?n b ?kept)"
      using b' unfolding bb by (metis snd_conv)
    show "list_all (\<lambda>v. v = None) vs" if "bin_rows b ?kept = []"
      unfolding vs using that by (rule bin_mean_empty)
    show "bin_rows b ?kept = []"
      if h: "(\<forall>r \<in> set (snd fred). length (snd r) = ?n)
               \<and> (\<forall>xs. xs \<noteq> [] \<longrightarrow> fmean xs \<noteq> None)
               \<and> list_all (\<lambda>v. v = None) vs"
    proof -
      have rk: "\<forall>r \<in> set ?kept. length (snd r) = ?n"
        using h by (simp add: snd_dropna_how_all)
      have nonan: "\<forall>xs. xs \<noteq> [] \<longrightarrow> fmean xs \<noteq> None"
        using h by blast
      have a: "list_all (\<lambda>v. v = None) (snd (bin_mean fmean ?n b ?kept))"
        using h vs by simp
      show ?thesis
        using rk sk nonan a by (rule bin_mean_all_None)
    qed
  qed
  show ?thesis
    using st rows
    by (intro exI [of _ "fst ?df"] exI [of _ ?out] conjI)
      (simp_all only: lab sorted_bin_labels distinct_bin_labels set_bin_labels)
qed

theorem fred_assets_rows_witness:
  "store_get (fred_assets_cell f64_mean ([''DGS10'', ''GOLDAMGBD228NLBM''],
        [(8, [Some 2, None]), (9, [Some 1, Some 1]), (10, [Some 2, Some 3]), (13, [Some 1, Some 1])])
        ([] :: (unit, unit, rat) frame hdfstore)) ''fred/assets'' =
      Some (Assets ([''10-Year Treasury CMR'', ''Gold (London, USD)''],
        [(8, [Some (7505999378950827 / 4503599627370496), Some 2]), (11, [None, None]),
         (12, [None, None]), (13, [Some 1, Some 1])]))
   \<and> (\<exists>cols out. store_get (fred_assets_cell f64_mean ([''DGS10'', ''GOLDAMGBD228NLBM''],
        [(8, [Some 2, None]), (9, [Some 1, Some 1]), (10, [Some 2, Some 3]), (13, [Some 1, Some 1])])
        ([] :: (unit, unit, rat) frame hdfstore)) ''fred/assets'' = Some (Assets (cols, out))
      \<and> sorted (map fst out) \<and> distinct (map fst out))"
proof -
  let ?F = "([''DGS10'', ''GOLDAMGBD228NLBM''],
        [(8::int, [Some (2::rat), None]), (9, [Some 1, Some 1]), (10, [Some 2, Some 3]), (13, [Some 1, Some 1])])"
  have v: "store_get (fred_assets_cell f64_mean ?F ([] :: (unit, unit, rat) frame hdfstore)) ''fred/assets'' =
      Some (Assets ([''10-Year Treasury CMR'', ''Gold (London, USD)''],
        [(8, [Some (7505999378950827 / 4503599627370496), Some 2]), (11, [None, None]),
         (12, [None, None]), (13, [Some 1, Some 1])]))"
    by code_simp
  from fred_assets_rows [of f64_mean ?F "[] :: (unit, unit, rat) frame hdfstore"]
  have "\<exists>cols out. store_get (fred_assets_cell f64_mean ?F ([] :: (unit, unit, rat) frame hdfstore)) ''fred/assets'' =
        Some (Assets (cols, out)) \<and> sorted (map fst out) \<and> distinct (map fst out)"
    by blast
  with v show ?thesis by blast
qed

theorem fred_assets_rows_counterexample:
  "fred_assets_cell f64_mean
     ([''DGS10'', ''GOLDAMGBD228NLBM''],
      [(4, [Some 1, Some 2]), (5, [None, None]), (6, [None, Some 3]), (7, [Some 4, None])])
     ([] :: (unit, unit, rat) frame hdfstore) =
   [(''fred/assets'',
     Assets ([''10-Year Treasury CMR'', ''Gold (London, USD)''],
       [(4, [Some 1, Some 2]), (5, [None, None]), (6, [None, Some 3]), (7, [Some 4, None])]))]"
  by code_simp

end
